theory Spec2Isabelle
  imports Complex_Main "HOL-Library.AList"
begin


section \<open>Values shared by the Risk Manager and the quoting strategy\<close>

text \<open>
  The source computes with \<^verbatim>\<open>Decimal\<close> objects of decimal.js (configured in
  \<^verbatim>\<open>utils/math\<close> with 28 significant digits and \<^verbatim>\<open>ROUND_HALF_UP\<close>). A finite
  decimal is an exact rational here. decimal.js rounds every sum, difference and quotient to
  28 significant digits; the model does not, so a value of the model is the value of the
  source only where that arithmetic is exact. The results below either evaluate the model on
  inputs of a few digits, where it is, or do not depend on a computed value at all.
  A quotient whose divisor can be zero is not finite in decimal.js; such quotients are
  values of \<open>DecimalQ\<close>.
\<close>

type_synonym decimal = rat

datatype DecimalQ = Fin decimal | PosInf | NegInf | NaN

definition dividedBy :: "decimal \<Rightarrow> decimal \<Rightarrow> DecimalQ" where
  "dividedBy a b =
     (if b = 0 then (if a = 0 then NaN else if 0 < a then PosInf else NegInf)
      else Fin (a / b))"

text \<open>
  Errors are values. \<open>Returns\<close> and \<open>Throws\<close> are the two ways a call of a method
  without a result ends; a method with a result ends in \<open>Inr\<close> the result or \<open>Inl\<close> the
  error. A state-changing method is a function to the state it leaves and the way it ends:
  what it wrote before an exception stays written.
\<close>

datatype error = TypeError

datatype Outcome = Returns | Throws error

text \<open>
  \<^verbatim>\<open>x.multipliedBy(y)\<close>. The \<^verbatim>\<open>Decimal\<close> that every file of the source imports is the one
  of decimal.js, whose product is \<^verbatim>\<open>times\<close> (or \<^verbatim>\<open>mul\<close>); it has no member
  \<^verbatim>\<open>multipliedBy\<close>, and the source defines none. Evaluating the call, for any receiver
  and argument, is therefore a \<^verbatim>\<open>TypeError\<close> (\<^verbatim>\<open>x.multipliedBy is not a function\<close>); the
  statements that follow it in the same method do not run, and a definition below ends where
  every path through the method has reached such a call. The other methods the source
  calls on a \<^verbatim>\<open>Decimal\<close> (\<^verbatim>\<open>plus\<close>, \<^verbatim>\<open>minus\<close>, \<^verbatim>\<open>dividedBy\<close>, \<^verbatim>\<open>abs\<close>,
  \<^verbatim>\<open>round\<close>, \<^verbatim>\<open>isZero\<close>, the comparisons, \<^verbatim>\<open>Decimal.min\<close>, \<^verbatim>\<open>Decimal.max\<close>) exist.
\<close>

definition multipliedBy :: "'a \<Rightarrow> 'b \<Rightarrow> error" where
  "multipliedBy x y = TypeError"

datatype OrderSide = BUY | SELL

datatype Direction = LONG | SHORT | NEUTRAL

datatype AlertLevel = WARNING | CRITICAL | EMERGENCY

record Order =
  o_id :: string
  o_symbol :: string
  o_side :: OrderSide
  o_amount :: decimal
  o_price :: "decimal option"
  o_fees :: decimal
  o_rebates :: decimal

record Position =
  p_symbol :: string
  p_side :: OrderSide
  p_size :: decimal
  p_entryPrice :: decimal
  p_markPrice :: decimal
  p_unrealizedPnl :: decimal
  p_realizedPnl :: decimal
  p_timestamp :: int
  p_fees :: decimal
  p_rebates :: decimal

section \<open>Risk Manager: state\<close>

record RiskLimits =
  lim_maxPositionSize :: decimal
  lim_maxDailyLoss :: decimal
  lim_maxDrawdownPercent :: decimal
  lim_maxOpenPositions :: nat
  lim_positionTimeoutMinutes :: int
  lim_emergencyStopLossPercent :: decimal
  lim_concentrationLimit :: decimal

text \<open>
  \<^verbatim>\<open>Portfolio.positions\<close> is an array of references to the ledger's own
  Position objects, rebuilt by \<^verbatim>\<open>updatePortfolio\<close>; nothing reads it, and it is
  left out of the record.
\<close>

record Portfolio =
  pf_totalValue :: decimal
  pf_cash :: decimal
  pf_unrealizedPnl :: decimal
  pf_realizedPnl :: decimal
  pf_totalFees :: decimal
  pf_totalRebates :: decimal
  pf_netPnl :: decimal

text \<open>
  \<^verbatim>\<open>winRate\<close>, \<^verbatim>\<open>avgWin\<close>, \<^verbatim>\<open>avgLoss\<close>, \<^verbatim>\<open>profitFactor\<close> and
  \<^verbatim>\<open>sharpeRatio\<close> are written by \<^verbatim>\<open>calculatePerformanceMetrics\<close> and read by no
  method of the Risk Manager; they are left out of the record.
\<close>

record RiskMetrics =
  rk_totalExposure :: decimal
  rk_maxPositionSize :: decimal
  rk_currentDrawdown :: decimal
  rk_maxDrawdown :: decimal
  rk_dailyPnl :: decimal
  rk_dailyLoss :: decimal

record DailyTrade =
  dt_timestamp :: int
  dt_pnl :: decimal
  dt_symbol :: string

text \<open>The local \<^verbatim>\<open>trade\<close> object of \<^verbatim>\<open>processOrderFill\<close>.\<close>

record Trade =
  t_timestamp :: int
  t_symbol :: string
  t_side :: OrderSide
  t_size :: decimal
  t_price :: decimal
  t_fees :: decimal
  t_rebates :: decimal
  t_pnl :: decimal

text \<open>
  A risk alert; \<^verbatim>\<open>id\<close> and \<^verbatim>\<open>message\<close> are formatted strings and are left out.
\<close>

record RiskAlert =
  ra_timestamp :: int
  ra_level :: AlertLevel
  ra_type :: string
  ra_symbol :: "string option"
  ra_value :: decimal
  ra_limit :: decimal
  ra_action :: string

text \<open>What the Risk Manager emits through its event emitter, oldest first.\<close>

datatype Event =
    RiskAlertEvent RiskAlert
  | EmergencyStopEvent "RiskAlert option"
  | EmergencyStopResetEvent

text \<open>
  The JavaScript \<^verbatim>\<open>Map\<close>s are association lists in insertion order:
  \<^verbatim>\<open>get\<close> is \<open>map_of\<close>, \<^verbatim>\<open>set\<close> is \<open>AList.update\<close> (an existing key keeps
  its place, a new one goes last), \<^verbatim>\<open>delete\<close> is \<open>AList.delete\<close>, \<^verbatim>\<open>size\<close> is
  the length. \<open>positionTimers\<close> keeps the symbols whose timeout timer is registered.
\<close>

record RiskManager =
  limits :: RiskLimits
  portfolio :: Portfolio
  positions :: "(string \<times> Position) list"
  pendingOrders :: "(string \<times> Order) list"
  dailyTrades :: "DailyTrade list"
  riskMetrics :: RiskMetrics
  emergencyStop :: bool
  drawdownHistory :: "(int \<times> decimal) list"
  positionTimers :: "string list"
  emitted :: "Event list"

record RiskConfig =
  cfg_maxPositionSize :: decimal
  cfg_maxDailyLoss :: decimal
  cfg_maxDrawdownPercent :: decimal
  cfg_positionTimeoutMinutes :: int
  cfg_emergencyStopLossPercent :: decimal
  cfg_concentrationLimit :: decimal
  cfg_maxOpenPositions :: nat

text \<open>\<^verbatim>\<open>x || d\<close> on a number: the default replaces zero.\<close>

definition createRiskLimits :: "RiskConfig \<Rightarrow> RiskLimits" where
  "createRiskLimits c =
     \<lparr> lim_maxPositionSize = cfg_maxPositionSize c,
       lim_maxDailyLoss = cfg_maxDailyLoss c,
       lim_maxDrawdownPercent = cfg_maxDrawdownPercent c,
       lim_maxOpenPositions = (if cfg_maxOpenPositions c = 0 then 10 else cfg_maxOpenPositions c),
       lim_positionTimeoutMinutes = cfg_positionTimeoutMinutes c,
       lim_emergencyStopLossPercent = cfg_emergencyStopLossPercent c,
       lim_concentrationLimit =
         (if cfg_concentrationLimit c = 0 then 3 / 10 else cfg_concentrationLimit c) \<rparr>"

definition initializePortfolio :: Portfolio where
  "initializePortfolio =
     \<lparr> pf_totalValue = 10000, pf_cash = 10000, pf_unrealizedPnl = 0, pf_realizedPnl = 0,
       pf_totalFees = 0, pf_totalRebates = 0, pf_netPnl = 0 \<rparr>"

definition initializeRiskMetrics :: "RiskLimits \<Rightarrow> RiskMetrics" where
  "initializeRiskMetrics l =
     \<lparr> rk_totalExposure = 0, rk_maxPositionSize = lim_maxPositionSize l,
       rk_currentDrawdown = 0, rk_maxDrawdown = 0, rk_dailyPnl = 0, rk_dailyLoss = 0 \<rparr>"

text \<open>The constructor.\<close>

definition newRiskManager :: "RiskConfig \<Rightarrow> RiskManager" where
  "newRiskManager c =
     \<lparr> limits = createRiskLimits c,
       portfolio = initializePortfolio,
       positions = [],
       pendingOrders = [],
       dailyTrades = [],
       riskMetrics = initializeRiskMetrics (createRiskLimits c),
       emergencyStop = False,
       drawdownHistory = [],
       positionTimers = [],
       emitted = [] \<rparr>"



section \<open>Risk Manager: operations\<close>

text \<open>
  The clock readings an operation takes: \<^verbatim>\<open>Date.now()\<close> (read once per operation in
  the model), \<^verbatim>\<open>TimeUtils.startOfDay()\<close> and
  \<^verbatim>\<open>TimeUtils.subtractTime(Date.now(), 1, 'day')\<close>, both computed by the moment
  library from the local time zone.
\<close>

record Clock =
  ck_now :: int
  ck_startOfDay :: int
  ck_oneDayAgo :: int

text \<open>
  \<^verbatim>\<open>canTrade\<close>. The first three tests use \<^verbatim>\<open>abs\<close> and
  \<^verbatim>\<open>greaterThanOrEqualTo\<close> only. When they pass and the symbol has a position, the
  concentration test starts with \<^verbatim>\<open>position.size.multipliedBy(position.markPrice)\<close>.
\<close>

definition canTrade :: "RiskManager \<Rightarrow> string \<Rightarrow> error + bool" where
  "canTrade rm symbol =
     (if emergencyStop rm then Inr False
      else if lim_maxDailyLoss (limits rm) \<le> \<bar>rk_dailyLoss (riskMetrics rm)\<bar> then Inr False
      else if lim_maxDrawdownPercent (limits rm) \<le> rk_currentDrawdown (riskMetrics rm)
        then Inr False
      else (case map_of (positions rm) symbol of
              Some position \<Rightarrow> Inl (multipliedBy (p_size position) (p_markPrice position))
            | None \<Rightarrow>
                if lim_maxOpenPositions (limits rm) \<le> length (positions rm) then Inr False
                else Inr True))"

text \<open>
  \<^verbatim>\<open>getMaxPositionSize\<close>: after two reads and a \<^verbatim>\<open>minus\<close>, every call evaluates
  \<^verbatim>\<open>portfolioValue.multipliedBy(this.limits.concentrationLimit)\<close>.
\<close>

definition getMaxPositionSize :: "RiskManager \<Rightarrow> string \<Rightarrow> decimal \<Rightarrow> error + decimal" where
  "getMaxPositionSize rm symbol requestedSize =
     Inl (multipliedBy (pf_totalValue (portfolio rm)) (lim_concentrationLimit (limits rm)))"

definition updateNetPnl :: "RiskManager \<Rightarrow> RiskManager" where
  "updateNetPnl rm =
     rm\<lparr>portfolio := (portfolio rm)\<lparr>pf_netPnl :=
        pf_realizedPnl (portfolio rm) + pf_unrealizedPnl (portfolio rm)
          + pf_totalRebates (portfolio rm) - pf_totalFees (portfolio rm)\<rparr>\<rparr>"

text \<open>
  \<^verbatim>\<open>updatePortfolio\<close>: the callback of \<^verbatim>\<open>this.positions.forEach\<close> starts with
  \<^verbatim>\<open>position.size.multipliedBy(position.markPrice)\<close>, so with a position in the ledger
  the method throws at the first one, before any field of the portfolio is assigned. With
  an empty ledger both sums are zero.
\<close>

definition updatePortfolio :: "RiskManager \<Rightarrow> RiskManager \<times> Outcome" where
  "updatePortfolio rm =
     (case positions rm of
        (k, position) # rest \<Rightarrow>
          (rm, Throws (multipliedBy (p_size position) (p_markPrice position)))
      | [] \<Rightarrow>
          (updateNetPnl (rm\<lparr>portfolio := (portfolio rm)
              \<lparr>pf_unrealizedPnl := 0,
               pf_totalValue := pf_cash (portfolio rm) + 0 + 0\<rparr>\<rparr>),
           Returns))"

definition getHistoricalPeak :: "RiskManager \<Rightarrow> decimal" where
  "getHistoricalPeak rm = max (pf_totalValue (portfolio rm)) 10000"

definition sumPnl :: "DailyTrade list \<Rightarrow> decimal" where
  "sumPnl ts = sum_list (map dt_pnl ts)"

text \<open>
  \<^verbatim>\<open>calculatePerformanceMetrics\<close> returns at once when there is no daily trade. Otherwise
  it assigns the four averages (not in the record) and ends with
  \<^verbatim>\<open>MathUtils.calculateSharpeRatio(returns)\<close>, where \<^verbatim>\<open>returns\<close> is each trade's P&L
  divided by the portfolio's total value. That method returns a zero only when the standard
  deviation \<^verbatim>\<open>variance.sqrt()\<close> \<^verbatim>\<open>isZero()\<close>, and otherwise evaluates
  \<^verbatim>\<open>excessReturn.dividedBy(standardDeviation).multipliedBy(Math.sqrt(252))\<close>. The variance is
  the sum of the squared deviations from the mean divided by \<^verbatim>\<open>returns.length - 1\<close>: with
  one trade that is 0/0, not a number and not zero; with a total value of zero every return
  is infinite or not a number, and so is the variance; in the remaining case it is zero
  exactly when all returns are equal, that is when all P&L are equal. (The last equivalence
  is the exact one; every trade's P&L is zero in every state the fills below produce, where
  decimal.js computes it without rounding.)
\<close>

definition calculateSharpeRatio_isZero :: "decimal \<Rightarrow> decimal list \<Rightarrow> bool" where
  "calculateSharpeRatio_isZero totalValue pnls =
     (2 \<le> length pnls \<and> totalValue \<noteq> 0 \<and> list_all (\<lambda>p. p = hd pnls) pnls)"

definition calculatePerformanceMetrics :: "RiskManager \<Rightarrow> RiskManager \<times> Outcome" where
  "calculatePerformanceMetrics rm =
     (if dailyTrades rm = [] then (rm, Returns)
      else if calculateSharpeRatio_isZero (pf_totalValue (portfolio rm))
                (map dt_pnl (dailyTrades rm))
        then (rm, Returns)
      else (rm, Throws TypeError))"

text \<open>\<^verbatim>\<open>splice(0, length - 1000)\<close>: keep the last 1000 entries.\<close>

definition keepLast1000 :: "'a list \<Rightarrow> 'a list" where
  "keepLast1000 xs = (if 1000 < length xs then drop (length xs - 1000) xs else xs)"

text \<open>
  \<^verbatim>\<open>updateRiskMetrics\<close>. The exposure loop starts with
  \<^verbatim>\<open>position.size.multipliedBy(position.markPrice)\<close>: with a position in the ledger the
  method throws there, before its first assignment. With an empty ledger it assigns the
  exposure, the daily P&L and the daily loss, and then the drawdown, which is
  \<^verbatim>\<open>peakCapital.minus(currentCapital).dividedBy(peakCapital).multipliedBy(100)\<close> when the peak is
  greater than the current value (the method throws, the three assignments made) and a new
  zero otherwise.
\<close>

definition updateRiskMetrics :: "Clock \<Rightarrow> RiskManager \<Rightarrow> RiskManager \<times> Outcome" where
  "updateRiskMetrics ck rm =
     (case positions rm of
        (k, position) # rest \<Rightarrow>
          (rm, Throws (multipliedBy (p_size position) (p_markPrice position)))
      | [] \<Rightarrow>
          (let todayTrades = filter (\<lambda>t. ck_startOfDay ck \<le> dt_timestamp t) (dailyTrades rm);
               dailyPnl = sumPnl todayTrades;
               dailyLoss = (if dailyPnl < 0 then \<bar>dailyPnl\<bar> else 0);
               rm1 = rm\<lparr>riskMetrics := (riskMetrics rm)
                        \<lparr>rk_totalExposure := 0,
                         rk_dailyPnl := dailyPnl,
                         rk_dailyLoss := dailyLoss\<rparr>\<rparr>;
               currentCapital = pf_totalValue (portfolio rm1);
               peakCapital = getHistoricalPeak rm1
           in if currentCapital < peakCapital
              then (rm1, Throws (multipliedBy
                                   (dividedBy (peakCapital - currentCapital) peakCapital)
                                   (100 :: decimal)))
              else
                (let currentDrawdown = 0;
                     maxDrawdown =
                       (if rk_maxDrawdown (riskMetrics rm1) < currentDrawdown
                        then currentDrawdown else rk_maxDrawdown (riskMetrics rm1))
                 in calculatePerformanceMetrics
                      (rm1\<lparr>riskMetrics := (riskMetrics rm1)
                              \<lparr>rk_currentDrawdown := currentDrawdown,
                               rk_maxDrawdown := maxDrawdown\<rparr>,
                            drawdownHistory :=
                              keepLast1000
                                (drawdownHistory rm1 @ [(ck_now ck, currentDrawdown)])\<rparr>))))"

text \<open>
  \<^verbatim>\<open>triggerEmergencyStop\<close>; the dashboard calls it without an alert, hence the option.
\<close>

definition triggerEmergencyStop :: "RiskManager \<Rightarrow> RiskAlert option \<Rightarrow> RiskManager" where
  "triggerEmergencyStop rm alert =
     (if emergencyStop rm then rm
      else rm\<lparr>emergencyStop := True,
              emitted := emitted rm @ [EmergencyStopEvent alert]\<rparr>)"

text \<open>
  \<^verbatim>\<open>emitRiskAlert\<close>: the caller's alert with its time stamp filled in is emitted as
  \<^verbatim>\<open>riskAlert\<close>, then an EMERGENCY alert triggers the emergency stop.
\<close>

definition emitRiskAlert :: "RiskManager \<Rightarrow> RiskAlert \<Rightarrow> RiskManager" where
  "emitRiskAlert rm fullAlert =
     (let rm1 = rm\<lparr>emitted := emitted rm @ [RiskAlertEvent fullAlert]\<rparr>
      in if ra_level fullAlert = EMERGENCY then triggerEmergencyStop rm1 (Some fullAlert)
         else rm1)"

definition resetEmergencyStop :: "RiskManager \<Rightarrow> RiskManager" where
  "resetEmergencyStop rm =
     rm\<lparr>emergencyStop := False, emitted := emitted rm @ [EmergencyStopResetEvent]\<rparr>"

text \<open>
  \<^verbatim>\<open>checkRiskLimits\<close>: after creating an empty array and reading the clock, its first
  test evaluates \<^verbatim>\<open>this.limits.maxDailyLoss.multipliedBy(0.8)\<close>. No call gets further: the
  method pushes no alert and emits none.
\<close>

definition checkRiskLimits :: "Clock \<Rightarrow> RiskManager \<Rightarrow> string option \<Rightarrow> RiskManager \<times> Outcome"
  where
  "checkRiskLimits ck rm symbol =
     (rm, Throws (multipliedBy (lim_maxDailyLoss (limits rm)) (8 / 10 :: decimal)))"

definition setPositionTimeout :: "RiskManager \<Rightarrow> string \<Rightarrow> RiskManager" where
  "setPositionTimeout rm symbol =
     (if symbol \<in> set (positionTimers rm) then rm
      else rm\<lparr>positionTimers := positionTimers rm @ [symbol]\<rparr>)"

definition clearPositionTimeout :: "RiskManager \<Rightarrow> string \<Rightarrow> RiskManager" where
  "clearPositionTimeout rm symbol =
     rm\<lparr>positionTimers := filter (\<lambda>s. s \<noteq> symbol) (positionTimers rm)\<rparr>"

text \<open>
  \<^verbatim>\<open>updatePosition\<close> stores the position and its timer and then calls
  \<^verbatim>\<open>updatePortfolio\<close>, \<^verbatim>\<open>updateRiskMetrics\<close> and \<^verbatim>\<open>checkRiskLimits\<close> in turn; an
  exception of one of them ends the call.
\<close>

definition updatePosition :: "Clock \<Rightarrow> RiskManager \<Rightarrow> Position \<Rightarrow> RiskManager \<times> Outcome" where
  "updatePosition ck rm position =
     (let rm1 = rm\<lparr>positions := AList.update (p_symbol position) position (positions rm)\<rparr>;
          rm2 = setPositionTimeout rm1 (p_symbol position)
      in case updatePortfolio rm2 of
           (rm3, Throws e) \<Rightarrow> (rm3, Throws e)
         | (rm3, Returns) \<Rightarrow>
             (case updateRiskMetrics ck rm3 of
                (rm4, Throws e) \<Rightarrow> (rm4, Throws e)
              | (rm4, Returns) \<Rightarrow> checkRiskLimits ck rm4 (Some (p_symbol position))))"

definition addPendingOrder :: "Clock \<Rightarrow> RiskManager \<Rightarrow> Order \<Rightarrow> RiskManager \<times> Outcome" where
  "addPendingOrder ck rm order =
     updateRiskMetrics ck
       (rm\<lparr>pendingOrders := AList.update (o_id order) order (pendingOrders rm)\<rparr>)"

definition removePendingOrder :: "Clock \<Rightarrow> RiskManager \<Rightarrow> string \<Rightarrow> RiskManager \<times> Outcome" where
  "removePendingOrder ck rm orderId =
     (case map_of (pendingOrders rm) orderId of
        None \<Rightarrow> (rm, Returns)
      | Some order \<Rightarrow>
          updateRiskMetrics ck
            (rm\<lparr>pendingOrders := AList.delete orderId (pendingOrders rm)\<rparr>))"

definition addRebateEarnings :: "RiskManager \<Rightarrow> decimal \<Rightarrow> RiskManager" where
  "addRebateEarnings rm rebateAmount =
     updateNetPnl (rm\<lparr>portfolio := (portfolio rm)
        \<lparr>pf_totalRebates := pf_totalRebates (portfolio rm) + rebateAmount,
         pf_cash := pf_cash (portfolio rm) + rebateAmount\<rparr>\<rparr>)"

text \<open>
  \<^verbatim>\<open>calculateRealizedPnl\<close> computes the size to close and the price difference, exit minus
  entry for a long and entry minus exit for a short, and returns
  \<^verbatim>\<open>priceDiff.multipliedBy(closeSize)\<close>: every call throws.
\<close>

definition calculateRealizedPnl :: "Position \<Rightarrow> decimal \<Rightarrow> decimal option \<Rightarrow> error" where
  "calculateRealizedPnl position exitPrice sz =
     (let closeSize = (case sz of Some s \<Rightarrow> s | None \<Rightarrow> p_size position);
          priceDiff = (if p_side position = BUY then exitPrice - p_entryPrice position
                       else p_entryPrice position - exitPrice)
      in multipliedBy priceDiff closeSize)"

text \<open>
  \<^verbatim>\<open>updatePositionFromFill\<close>. Without a position for the symbol it stores a new one. With
  one, the same-side branch computes the total size and then
  \<^verbatim>\<open>existingPosition.entryPrice.multipliedBy(existingPosition.size)\<close>, and both opposite-side
  branches call \<^verbatim>\<open>calculateRealizedPnl\<close>, each before the first assignment to the position,
  to the portfolio or to \<^verbatim>\<open>trade.pnl\<close>: the call throws and the state is the one it found.
\<close>

definition updatePositionFromFill :: "RiskManager \<Rightarrow> Trade \<Rightarrow> RiskManager \<times> Outcome" where
  "updatePositionFromFill rm trade =
     (case map_of (positions rm) (t_symbol trade) of
        None \<Rightarrow>
          (rm\<lparr>positions := AList.update (t_symbol trade)
                 \<lparr> p_symbol = t_symbol trade, p_side = t_side trade, p_size = t_size trade,
                   p_entryPrice = t_price trade, p_markPrice = t_price trade,
                   p_unrealizedPnl = 0, p_realizedPnl = 0, p_timestamp = t_timestamp trade,
                   p_fees = t_fees trade, p_rebates = t_rebates trade \<rparr>
                 (positions rm)\<rparr>,
           Returns)
      | Some existingPosition \<Rightarrow>
          (if p_side existingPosition = t_side trade then
             (rm, Throws (multipliedBy (p_entryPrice existingPosition)
                                       (p_size existingPosition)))
           else if p_size existingPosition \<le> t_size trade then
             (rm, Throws (calculateRealizedPnl existingPosition (t_price trade) None))
           else
             (rm, Throws (calculateRealizedPnl existingPosition (t_price trade)
                            (Some (t_size trade))))))"

text \<open>
  \<^verbatim>\<open>processOrderFill\<close>: an exception of \<^verbatim>\<open>updatePositionFromFill\<close> ends the call before
  the daily trade is recorded. Otherwise the trade is recorded with the P&L the trade object
  was created with (zero: only the branches that throw assign it), the rebate is added, and
  the order is removed from the pending orders, which recomputes the risk metrics when the
  order was pending.
\<close>

definition processOrderFill ::
  "Clock \<Rightarrow> RiskManager \<Rightarrow> Order \<Rightarrow> decimal \<Rightarrow> decimal \<Rightarrow> RiskManager \<times> Outcome" where
  "processOrderFill ck rm order fillPrice fillSize =
     (let trade = \<lparr> t_timestamp = ck_now ck, t_symbol = o_symbol order, t_side = o_side order,
                    t_size = fillSize, t_price = fillPrice, t_fees = o_fees order,
                    t_rebates = o_rebates order, t_pnl = 0 \<rparr>
      in case updatePositionFromFill rm trade of
           (rm1, Throws e) \<Rightarrow> (rm1, Throws e)
         | (rm1, Returns) \<Rightarrow>
             (let rm2 = rm1\<lparr>dailyTrades := dailyTrades rm1 @
                          [\<lparr> dt_timestamp = t_timestamp trade, dt_pnl = t_pnl trade,
                             dt_symbol = t_symbol trade \<rparr>]\<rparr>;
                  rm3 = addRebateEarnings rm2 (o_rebates order)
              in removePendingOrder ck rm3 (o_id order)))"

definition handlePositionTimeout :: "Clock \<Rightarrow> RiskManager \<Rightarrow> string \<Rightarrow> RiskManager" where
  "handlePositionTimeout ck rm symbol =
     (case map_of (positions rm) symbol of
        None \<Rightarrow> rm
      | Some position \<Rightarrow>
          emitRiskAlert rm
            \<lparr> ra_timestamp = ck_now ck, ra_level = WARNING, ra_type = ''POSITION_TIMEOUT'',
              ra_symbol = Some symbol,
              ra_value = of_int (lim_positionTimeoutMinutes (limits rm)),
              ra_limit = of_int (lim_positionTimeoutMinutes (limits rm)),
              ra_action = ''REDUCE_POSITION'' \<rparr>)"

definition cleanupOldData :: "Clock \<Rightarrow> RiskManager \<Rightarrow> RiskManager" where
  "cleanupOldData ck rm =
     rm\<lparr>dailyTrades := filter (\<lambda>t. ck_oneDayAgo ck < dt_timestamp t) (dailyTrades rm),
        drawdownHistory := filter (\<lambda>(ts, d). ck_oneDayAgo ck < ts) (drawdownHistory rm)\<rparr>"

text \<open>
  \<^verbatim>\<open>performRiskCheck\<close> runs the three steps inside \<^verbatim>\<open>try\<close>; its \<^verbatim>\<open>catch\<close> logs the
  error and the method returns. The first exception ends the cycle, so the clean-up, which
  comes after \<^verbatim>\<open>checkRiskLimits\<close>, is reached only if that method returns.
\<close>

definition performRiskCheck :: "Clock \<Rightarrow> RiskManager \<Rightarrow> RiskManager" where
  "performRiskCheck ck rm =
     (case updateRiskMetrics ck rm of
        (rm1, Throws e) \<Rightarrow> rm1
      | (rm1, Returns) \<Rightarrow>
          (case checkRiskLimits ck rm1 None of
             (rm2, Throws e) \<Rightarrow> rm2
           | (rm2, Returns) \<Rightarrow> cleanupOldData ck rm2))"

definition forceClosePosition :: "RiskManager \<Rightarrow> string \<Rightarrow> RiskManager" where
  "forceClosePosition rm symbol =
     (case map_of (positions rm) symbol of
        None \<Rightarrow> rm
      | Some position \<Rightarrow>
          clearPositionTimeout (rm\<lparr>positions := AList.delete symbol (positions rm)\<rparr>) symbol)"

definition updateRiskLimits :: "RiskManager \<Rightarrow> (RiskLimits \<Rightarrow> RiskLimits) \<Rightarrow> RiskManager" where
  "updateRiskLimits rm newLimits = rm\<lparr>limits := newLimits (limits rm)\<rparr>"

definition getPosition :: "RiskManager \<Rightarrow> string \<Rightarrow> Position option" where
  "getPosition rm symbol = map_of (positions rm) symbol"

text \<open>
  Every entry point that changes a Risk Manager: its public methods, the two timer callbacks
  (the risk-check interval and a position timeout) and the emergency stop the dashboard
  triggers by hand. \<^verbatim>\<open>updateRiskLimits\<close> merges a partial record into the limits; the
  merge is the function carried by \<open>UpdateRiskLimits\<close>. A step is the state the call
  leaves, whether it returned or threw: the Risk Manager lives on after an exception that
  its caller catches, and the next call finds what the failed one had written.
\<close>

datatype Op =
    UpdatePosition Position
  | AddPendingOrder Order
  | RemovePendingOrder string
  | ProcessOrderFill Order decimal decimal
  | AddRebateEarnings decimal
  | PerformRiskCheck
  | PositionTimeout string
  | ForceClosePosition string
  | UpdateRiskLimits "RiskLimits \<Rightarrow> RiskLimits"
  | TriggerEmergencyStop
  | ResetEmergencyStop

fun step :: "RiskManager \<Rightarrow> Clock \<times> Op \<Rightarrow> RiskManager" where
  "step rm (ck, UpdatePosition p) = fst (updatePosition ck rm p)"
| "step rm (ck, AddPendingOrder order) = fst (addPendingOrder ck rm order)"
| "step rm (ck, RemovePendingOrder orderId) = fst (removePendingOrder ck rm orderId)"
| "step rm (ck, ProcessOrderFill order fillPrice fillSize) =
     fst (processOrderFill ck rm order fillPrice fillSize)"
| "step rm (ck, AddRebateEarnings amount) = addRebateEarnings rm amount"
| "step rm (ck, PerformRiskCheck) = performRiskCheck ck rm"
| "step rm (ck, PositionTimeout symbol) = handlePositionTimeout ck rm symbol"
| "step rm (ck, ForceClosePosition symbol) = forceClosePosition rm symbol"
| "step rm (ck, UpdateRiskLimits newLimits) = updateRiskLimits rm newLimits"
| "step rm (ck, TriggerEmergencyStop) = triggerEmergencyStop rm None"
| "step rm (ck, ResetEmergencyStop) = resetEmergencyStop rm"

definition run :: "RiskManager \<Rightarrow> (Clock \<times> Op) list \<Rightarrow> RiskManager" where
  "run rm ops = foldl step rm ops"


section \<open>One-sided quoting strategy: data\<close>

text \<open>
  Of the market snapshot, the order book and the signal, the fields the strategy reads.
\<close>

record MarketData =
  md_symbol :: string
  md_bid :: decimal
  md_ask :: decimal
  md_spread :: decimal
  md_midPrice :: decimal

record OrderBookLevel =
  lv_price :: decimal
  lv_size :: decimal

record OrderBook =
  ob_symbol :: string
  ob_bids :: "OrderBookLevel list"
  ob_asks :: "OrderBookLevel list"

record Signal =
  sg_symbol :: string
  sg_direction :: Direction
  sg_confidence :: decimal
  sg_strength :: decimal
  sg_reason :: string

record OneSidedQuotingConfig =
  qc_symbols :: "string list"
  qc_maxPositionSize :: decimal
  qc_baseOrderSize :: decimal
  qc_confidenceThreshold :: decimal
  qc_aggressivenessFactor :: decimal
  qc_quoteUpdateFrequency :: int
  qc_maxSpreadPercent :: decimal

datatype Action = Buy | Sell | Hold

datatype RiskLevel = LOW | MEDIUM | HIGH

text \<open>A trading decision; \<^verbatim>\<open>orderType\<close> is always LIMIT and \<^verbatim>\<open>reasoning\<close> is a
  formatted string, both left out.\<close>

record TradingDecision =
  td_signal :: Signal
  td_action :: Action
  td_size :: decimal
  td_price :: decimal
  td_riskLevel :: RiskLevel

text \<open>The calls the strategy makes to the exchange client, oldest first.\<close>

datatype ExchangeRequest =
    PlaceOrderRequest string OrderSide decimal decimal
  | CancelOrderRequest string string

text \<open>
  What the exchange client answers: \<^verbatim>\<open>cancelOrder\<close> resolves to a boolean (whether the
  exchange's status was ok) or rejects; \<^verbatim>\<open>placeOrder\<close> resolves to the placed order or
  rejects.
\<close>

datatype CancelResult = CancelReturns bool | CancelThrows

text \<open>
  What lets a suspended call go on: the answer to the exchange call it awaits, or, when it
  awaits a call of the strategy's own that has returned, its turn on the event loop.
\<close>

datatype Wakeup = CancelResponse CancelResult | PlaceResponse "Order option" | Turn

text \<open>
  The strategy with its two collaborators' state: the Risk Manager and the signal
  generator's latest signal per symbol.
\<close>

record Strategy =
  config :: OneSidedQuotingConfig
  riskManager :: RiskManager
  lastSignals :: "(string \<times> Signal) list"
  marketData :: "(string \<times> MarketData) list"
  orderBooks :: "(string \<times> OrderBook) list"
  activeOrders :: "(string \<times> Order list) list"
  strategyPositions :: "(string \<times> Position) list"
  lastQuoteTime :: "(string \<times> int) list"
  isRunning :: bool
  requests :: "ExchangeRequest list"

text \<open>The constructor, for a Risk Manager in any state.\<close>

definition newStrategy :: "OneSidedQuotingConfig \<Rightarrow> RiskManager \<Rightarrow> Strategy" where
  "newStrategy cfg rm =
     \<lparr> config = cfg, riskManager = rm, lastSignals = [], marketData = [], orderBooks = [],
       activeOrders = [], strategyPositions = [], lastQuoteTime = [], isRunning = False,
       requests = [] \<rparr>"

section \<open>One-sided quoting strategy: the decision\<close>

text \<open>
  \<^verbatim>\<open>x.round()\<close> under the configured \<^verbatim>\<open>ROUND_HALF_UP\<close>: to the nearest integer, a tie
  away from zero; an infinite value or a NaN is its own rounding.
\<close>

definition decimal_round :: "decimal \<Rightarrow> decimal" where
  "decimal_round x =
     (if 0 \<le> x then of_int \<lfloor>x + 1 / 2\<rfloor> else - of_int \<lfloor>- x + 1 / 2\<rfloor>)"

fun round_q :: "DecimalQ \<Rightarrow> DecimalQ" where
  "round_q (Fin x) = Fin (decimal_round x)"
| "round_q q = q"

text \<open>
  \<^verbatim>\<open>MathUtils.roundToTickSize\<close> is
  \<^verbatim>\<open>price.dividedBy(tickSize).round().multipliedBy(tickSize)\<close>: every call throws.
\<close>

definition roundToTickSize :: "decimal \<Rightarrow> decimal \<Rightarrow> error" where
  "roundToTickSize price tickSize = multipliedBy (round_q (dividedBy price tickSize)) tickSize"

text \<open>
  \<^verbatim>\<open>calculateQuotePrice\<close> reads the spread, the mid price and the configured base
  aggressiveness, and then evaluates \<^verbatim>\<open>signal.confidence.multipliedBy(0.5)\<close>: every call
  throws, before the best bid or ask, the offset, the clamp against the mid price, the tick
  size or the rounding are computed.
\<close>

definition calculateQuotePrice ::
  "OneSidedQuotingConfig \<Rightarrow> Signal \<Rightarrow> MarketData \<Rightarrow> OrderBook \<Rightarrow> OrderSide \<Rightarrow> error" where
  "calculateQuotePrice cfg signal md ob side =
     (let spread = md_ask md - md_bid md;
          midPrice = md_midPrice md;
          baseAggressiveness = qc_aggressivenessFactor cfg
      in multipliedBy (sg_confidence signal) (1 / 2 :: decimal))"

text \<open>
  \<^verbatim>\<open>generateTradingDecision\<close>: a NEUTRAL signal is answered with HOLD at once. For a
  LONG or a SHORT signal the side and the reference price are chosen and
  \<^verbatim>\<open>calculateQuotePrice\<close> is called first; it throws, so the size, the validation and the
  risk level, which follow it, are never computed, and no decision other than the HOLD of a
  NEUTRAL signal is ever returned.
\<close>

definition generateTradingDecision ::
  "Strategy \<Rightarrow> Signal \<Rightarrow> MarketData \<Rightarrow> OrderBook \<Rightarrow> error + TradingDecision" where
  "generateTradingDecision st signal md ob =
     (if sg_direction signal = LONG
        then Inl (calculateQuotePrice (config st) signal md ob BUY)
      else if sg_direction signal = SHORT
        then Inl (calculateQuotePrice (config st) signal md ob SELL)
      else Inr \<lparr> td_signal = signal, td_action = Hold, td_size = 0, td_price = 0,
                 td_riskLevel = LOW \<rparr>)"

section \<open>One-sided quoting strategy: the quote update\<close>

text \<open>
  \<^verbatim>\<open>updateQuotes\<close>, \<^verbatim>\<open>cancelSymbolOrders\<close> and \<^verbatim>\<open>placeQuote\<close> are async functions. A call
  runs until an \<^verbatim>\<open>await\<close> and goes on later; in between, other handlers run. A \<open>Task\<close> is
  a suspended call: where it waits and the local variables it goes on with (the symbol, the
  orders the loop of \<^verbatim>\<open>cancelSymbolOrders\<close> still has to cancel, and what the caller of
  \<^verbatim>\<open>cancelSymbolOrders\<close> does next). The model lets any handler run at every
  \<^verbatim>\<open>await\<close>, which covers every schedule of the event loop. The loop of
  \<^verbatim>\<open>cancelSymbolOrders\<close> walks the array it read from the map; the task keeps its
  elements, which is the same unless another handler pushes onto that very array while the
  loop waits. Every \<^verbatim>\<open>catch\<close> block of these functions logs and goes on.
\<close>

datatype After = Requote Signal MarketData OrderBook | NoMore

datatype Task =
    AwaitCancel string After Order "Order list"
  | CancelsDone string After
  | AwaitPlace string TradingDecision
  | PlaceDone string
  | Finished

definition symbolOrders :: "Strategy \<Rightarrow> string \<Rightarrow> Order list" where
  "symbolOrders st symbol = (case map_of (activeOrders st) symbol of None \<Rightarrow> [] | Some os \<Rightarrow> os)"

text \<open>In the loop of \<^verbatim>\<open>cancelSymbolOrders\<close>: the call of \<^verbatim>\<open>cancelOrder\<close>.\<close>

definition requestCancel :: "Strategy \<Rightarrow> Order \<Rightarrow> string \<Rightarrow> Strategy" where
  "requestCancel st order symbol =
     st\<lparr>requests := requests st @ [CancelOrderRequest (o_id order) symbol]\<rparr>"

text \<open>
  In the loop of \<^verbatim>\<open>cancelSymbolOrders\<close>, after the await: when \<^verbatim>\<open>cancelOrder\<close>
  resolved (to either boolean) the order leaves the Risk Manager's pending orders, and an
  exception of \<^verbatim>\<open>removePendingOrder\<close> is caught with what it had written; when
  \<^verbatim>\<open>cancelOrder\<close> rejected, the catch block logs.
\<close>

definition cancelAnswered :: "Clock \<Rightarrow> Strategy \<Rightarrow> Order \<Rightarrow> CancelResult \<Rightarrow> Strategy" where
  "cancelAnswered ck st order result =
     (case result of
        CancelThrows \<Rightarrow> st
      | CancelReturns b \<Rightarrow>
          st\<lparr>riskManager := fst (removePendingOrder ck (riskManager st) (o_id order))\<rparr>)"

text \<open>
  The head of the loop of \<^verbatim>\<open>cancelSymbolOrders\<close>; after the loop the symbol's active
  orders are reset to the empty list and the method returns to the caller that awaits it.
\<close>

fun cancelNext :: "Strategy \<Rightarrow> string \<Rightarrow> After \<Rightarrow> Order list \<Rightarrow> Strategy \<times> Task" where
  "cancelNext st symbol after [] =
     (st\<lparr>activeOrders := AList.update symbol [] (activeOrders st)\<rparr>, CancelsDone symbol after)"
| "cancelNext st symbol after (order # rest) =
     (requestCancel st order symbol, AwaitCancel symbol after order rest)"

definition cancelSymbolOrders :: "Strategy \<Rightarrow> string \<Rightarrow> After \<Rightarrow> Strategy \<times> Task" where
  "cancelSymbolOrders st symbol after = cancelNext st symbol after (symbolOrders st symbol)"

text \<open>
  \<^verbatim>\<open>updateQuotes\<close> from its call to its first await, all of it inside \<^verbatim>\<open>try\<close>: without
  a signal, market data or an order book for the symbol it returns; an exception of
  \<^verbatim>\<open>canTrade\<close> is caught and logged, and the call is over; when \<^verbatim>\<open>canTrade\<close> returns
  false it returns; otherwise it calls \<^verbatim>\<open>cancelSymbolOrders\<close>.
\<close>

definition updateQuotes_begin :: "Strategy \<Rightarrow> string \<Rightarrow> Strategy \<times> Task" where
  "updateQuotes_begin st symbol =
     (case (map_of (lastSignals st) symbol, map_of (marketData st) symbol,
            map_of (orderBooks st) symbol) of
        (Some signal, Some md, Some ob) \<Rightarrow>
          (case canTrade (riskManager st) symbol of
             Inl e \<Rightarrow> (st, Finished)
           | Inr False \<Rightarrow> (st, Finished)
           | Inr True \<Rightarrow> cancelSymbolOrders st symbol (Requote signal md ob))
      | _ \<Rightarrow> (st, Finished))"

text \<open>
  \<^verbatim>\<open>updateQuotes\<close> after \<^verbatim>\<open>cancelSymbolOrders\<close>: the decision is made from the signal,
  market data and order book read at the start; an exception is caught and logged, a HOLD
  ends the call, and any other decision is handed to \<^verbatim>\<open>placeQuote\<close>, which calls
  \<^verbatim>\<open>placeOrder\<close>.
\<close>

definition decide :: "Strategy \<Rightarrow> string \<Rightarrow> Signal \<Rightarrow> MarketData \<Rightarrow> OrderBook \<Rightarrow> Strategy \<times> Task"
  where
  "decide st symbol signal md ob =
     (case generateTradingDecision st signal md ob of
        Inl e \<Rightarrow> (st, Finished)
      | Inr decision \<Rightarrow>
          if td_action decision = Hold then (st, Finished)
          else
            (st\<lparr>requests := requests st @
                [PlaceOrderRequest (sg_symbol (td_signal decision))
                   (if td_action decision = Buy then BUY else SELL)
                   (td_size decision) (td_price decision)]\<rparr>,
             AwaitPlace symbol decision))"

text \<open>
  \<^verbatim>\<open>placeQuote\<close> after its await: a placed order joins the active orders of the
  decision's symbol and the Risk Manager's pending orders (an exception of
  \<^verbatim>\<open>addPendingOrder\<close> is caught with what it had written, as a rejected
  \<^verbatim>\<open>placeOrder\<close> is).
\<close>

definition placeAnswered :: "Clock \<Rightarrow> Strategy \<Rightarrow> TradingDecision \<Rightarrow> Order option \<Rightarrow> Strategy" where
  "placeAnswered ck st decision result =
     (let decided = sg_symbol (td_signal decision)
      in case result of
           None \<Rightarrow> st
         | Some order \<Rightarrow>
             st\<lparr>activeOrders :=
                  AList.update decided (symbolOrders st decided @ [order]) (activeOrders st),
                riskManager := fst (addPendingOrder ck (riskManager st) order)\<rparr>)"

text \<open>
  A suspended call goes on. After \<^verbatim>\<open>placeQuote\<close> has returned, \<^verbatim>\<open>updateQuotes\<close> sets the
  last quote time of its symbol. A wake-up of the wrong kind does not occur.
\<close>

fun resume :: "Clock \<Rightarrow> Strategy \<Rightarrow> Task \<Rightarrow> Wakeup \<Rightarrow> Strategy \<times> Task" where
  "resume ck st (AwaitCancel symbol after order rest) (CancelResponse result) =
     cancelNext (cancelAnswered ck st order result) symbol after rest"
| "resume ck st (CancelsDone symbol (Requote signal md ob)) Turn =
     decide st symbol signal md ob"
| "resume ck st (CancelsDone symbol NoMore) Turn = (st, Finished)"
| "resume ck st (AwaitPlace symbol decision) (PlaceResponse result) =
     (placeAnswered ck st decision result, PlaceDone symbol)"
| "resume ck st (PlaceDone symbol) Turn =
     (st\<lparr>lastQuoteTime := AList.update symbol (ck_now ck) (lastQuoteTime st)\<rparr>, Finished)"
| "resume ck st task wakeup = (st, task)"

text \<open>
  \<^verbatim>\<open>processMarketData\<close> up to the first await of the quote update it starts (it does not
  wait for it); \<^verbatim>\<open>get(symbol) || 0\<close> is 0 without a last quote time.
\<close>

definition processMarketData :: "Clock \<Rightarrow> Strategy \<Rightarrow> MarketData \<Rightarrow> Strategy \<times> Task" where
  "processMarketData ck st md =
     (let st1 = st\<lparr>marketData := AList.update (md_symbol md) md (marketData st)\<rparr>;
          last = (case map_of (lastQuoteTime st1) (md_symbol md) of None \<Rightarrow> 0 | Some t \<Rightarrow> t)
      in if qc_quoteUpdateFrequency (config st1) \<le> ck_now ck - last
         then updateQuotes_begin st1 (md_symbol md)
         else (st1, Finished))"

definition processOrderBook :: "Strategy \<Rightarrow> OrderBook \<Rightarrow> Strategy" where
  "processOrderBook st ob = st\<lparr>orderBooks := AList.update (ob_symbol ob) ob (orderBooks st)\<rparr>"

text \<open>\<^verbatim>\<open>processSignal\<close> up to the first await of the quote update it starts.\<close>

definition processSignal :: "Strategy \<Rightarrow> Signal \<Rightarrow> Strategy \<times> Task" where
  "processSignal st signal =
     (if \<not> isRunning st \<or> sg_symbol signal \<notin> set (qc_symbols (config st)) then (st, Finished)
      else if sg_confidence signal < qc_confidenceThreshold (config st) then (st, Finished)
      else updateQuotes_begin st (sg_symbol signal))"

text \<open>
  \<^verbatim>\<open>loadPositions\<close> after \<^verbatim>\<open>getPositions\<close> has answered: each position is stored and
  passed to the Risk Manager's \<^verbatim>\<open>updatePosition\<close>; an exception there ends the loop and is
  caught and logged, as a rejected \<^verbatim>\<open>getPositions\<close> is.
\<close>

fun loadPositions :: "Clock \<Rightarrow> Strategy \<Rightarrow> Position list \<Rightarrow> Strategy" where
  "loadPositions ck st [] = st"
| "loadPositions ck st (position # rest) =
     (let st1 = st\<lparr>strategyPositions :=
                     AList.update (p_symbol position) position (strategyPositions st)\<rparr>
      in case updatePosition ck (riskManager st1) position of
           (rm, Throws e) \<Rightarrow> st1\<lparr>riskManager := rm\<rparr>
         | (rm, Returns) \<Rightarrow> loadPositions ck (st1\<lparr>riskManager := rm\<rparr>) rest)"

section \<open>One-sided quoting strategy: runs\<close>

text \<open>
  What happens to a strategy, one event at a time: market data and order books arrive from
  the exchange feed; the signal generator stores a signal under a symbol and emits it, or
  forgets a symbol's signal (\<^verbatim>\<open>clearHistory\<close>); the quote timer reaches
  \<^verbatim>\<open>updateQuotes\<close> for a symbol (it tests the running flag once per tick, before the
  first symbol); \<^verbatim>\<open>start\<close> goes on after \<^verbatim>\<open>getPositions\<close> has answered, loads the
  positions and sets the running flag; \<^verbatim>\<open>stop\<close> clears the flag; \<^verbatim>\<open>cancelAllOrders\<close>,
  called by \<^verbatim>\<open>stop\<close> and by the handler of an EMERGENCY alert, calls
  \<^verbatim>\<open>cancelSymbolOrders\<close> for one symbol after the other, each call an event of its own
  here; a suspended call goes on; and any entry point of the Risk Manager is called (by the
  engine, a timer or the dashboard). The events can come in any order, which covers the
  orders in which the source makes them happen.
\<close>

datatype StrategyEvent =
    MarketDataArrives Clock MarketData
  | OrderBookArrives OrderBook
  | SignalEmitted string Signal
  | HistoryCleared string
  | QuoteTimerFires string
  | PositionsLoaded Clock "Position list option"
  | StopCalled
  | CancelSymbolOrdersCalled string
  | Resumes nat Clock Wakeup
  | RiskManagerCalled Clock Op

text \<open>The strategy together with its suspended calls, in the order they were started.\<close>

type_synonym System = "Strategy \<times> Task list"

definition started :: "System \<Rightarrow> Strategy \<times> Task \<Rightarrow> System" where
  "started sys r = (fst r, snd sys @ [snd r])"

fun handle :: "System \<Rightarrow> StrategyEvent \<Rightarrow> System" where
  "handle sys (MarketDataArrives ck md) = started sys (processMarketData ck (fst sys) md)"
| "handle sys (OrderBookArrives ob) = (processOrderBook (fst sys) ob, snd sys)"
| "handle sys (SignalEmitted symbol signal) =
     started sys
       (processSignal
          ((fst sys)\<lparr>lastSignals := AList.update symbol signal (lastSignals (fst sys))\<rparr>)
          signal)"
| "handle sys (HistoryCleared symbol) =
     ((fst sys)\<lparr>lastSignals := AList.delete symbol (lastSignals (fst sys))\<rparr>, snd sys)"
| "handle sys (QuoteTimerFires symbol) = started sys (updateQuotes_begin (fst sys) symbol)"
| "handle sys (PositionsLoaded ck answer) =
     ((case answer of
         None \<Rightarrow> fst sys
       | Some loaded \<Rightarrow> loadPositions ck (fst sys) loaded)\<lparr>isRunning := True\<rparr>,
      snd sys)"
| "handle sys StopCalled = ((fst sys)\<lparr>isRunning := False\<rparr>, snd sys)"
| "handle sys (CancelSymbolOrdersCalled symbol) =
     started sys (cancelSymbolOrders (fst sys) symbol NoMore)"
| "handle sys (Resumes n ck wakeup) =
     (if n < length (snd sys)
      then (fst (resume ck (fst sys) (snd sys ! n) wakeup),
            (snd sys)[n := snd (resume ck (fst sys) (snd sys ! n) wakeup)])
      else sys)"
| "handle sys (RiskManagerCalled ck op) =
     ((fst sys)\<lparr>riskManager := step (riskManager (fst sys)) (ck, op)\<rparr>, snd sys)"

definition runEvents :: "System \<Rightarrow> StrategyEvent list \<Rightarrow> System" where
  "runEvents sys events = foldl handle sys events"


text \<open>
  No symbol has an active order; and a suspended call that has asked nothing of the
  exchange and holds no order to cancel or place: it is over, or it waits for its turn after
  a \<^verbatim>\<open>cancelSymbolOrders\<close> that had nothing to cancel.
\<close>

definition noActiveOrders :: "Strategy \<Rightarrow> bool" where
  "noActiveOrders st = list_all (\<lambda>(symbol, orders). orders = []) (activeOrders st)"

fun quiet :: "Task \<Rightarrow> bool" where
  "quiet Finished = True"
| "quiet (CancelsDone symbol after) = True"
| "quiet task = False"


section \<open>Sequences of fills\<close>

text \<open>A call of \<^verbatim>\<open>processOrderFill\<close> with a positive price and a positive size.\<close>

fun positiveFill :: "Clock \<times> Op \<Rightarrow> bool" where
  "positiveFill (ck, ProcessOrderFill order fillPrice fillSize) = (0 < fillPrice \<and> 0 < fillSize)"
| "positiveFill (ck, _) = False"

text \<open>Every entry of the ledger has a positive size.\<close>

definition sizesPositive :: "RiskManager \<Rightarrow> bool" where
  "sizesPositive rm = list_all (\<lambda>(k, p). 0 < p_size p) (positions rm)"

section \<open>Traces that leave the emergency stop alone\<close>

fun isReset :: "Op \<Rightarrow> bool" where
  "isReset ResetEmergencyStop = True"
| "isReset _ = False"


section \<open>The portfolio identity as the specification words it\<close>

text \<open>
  The two sums of the identity \<open>total value = cash + \<Sum> size * mark price + \<Sum> unrealized
  P&L\<close>, over the positions of the ledger. They follow the specification's words and are
  computed in the model's exact arithmetic, not by a call of the source.
\<close>

definition totalPositionValue :: "(string \<times> Position) list \<Rightarrow> decimal" where
  "totalPositionValue ps = sum_list (map (\<lambda>(k, p). p_size p * p_markPrice p) ps)"

definition totalUnrealizedPnl :: "(string \<times> Position) list \<Rightarrow> decimal" where
  "totalUnrealizedPnl ps = sum_list (map (\<lambda>(k, p). p_unrealizedPnl p) ps)"

section \<open>The drawdown as the specification words it\<close>





section \<open>Concrete states and orders\<close>

text \<open>The configuration of the repository's unit test of the Risk Manager.\<close>

definition exampleConfig :: RiskConfig where
  "exampleConfig =
     \<lparr> cfg_maxPositionSize = 1000, cfg_maxDailyLoss = 500, cfg_maxDrawdownPercent = 5,
       cfg_positionTimeoutMinutes = 30, cfg_emergencyStopLossPercent = 10,
       cfg_concentrationLimit = 3 / 10, cfg_maxOpenPositions = 5 \<rparr>"

definition exampleClock :: Clock where
  "exampleClock = \<lparr> ck_now = 1000, ck_startOfDay = 0, ck_oneDayAgo = 1000 - 86400000 \<rparr>"

text \<open>An ETH order that the Risk Manager does not hold as pending, without fees or rebates.\<close>

definition ethOrder :: "string \<Rightarrow> OrderSide \<Rightarrow> decimal \<Rightarrow> decimal \<Rightarrow> Order" where
  "ethOrder oid sd amount price =
     \<lparr> o_id = oid, o_symbol = ''ETH'', o_side = sd, o_amount = amount,
       o_price = Some price, o_fees = 0, o_rebates = 0 \<rparr>"

text \<open>A fresh Risk Manager after a BUY fill of 1 ETH at 2000: the call returns.\<close>

definition longOneEth :: RiskManager where
  "longOneEth =
     fst (processOrderFill exampleClock (newRiskManager exampleConfig)
            (ethOrder ''1'' BUY 1 2000) 2000 1)"

definition ethPosition :: "OrderSide \<Rightarrow> decimal \<Rightarrow> decimal \<Rightarrow> decimal \<Rightarrow> Position" where
  "ethPosition sd sz entry mark =
     \<lparr> p_symbol = ''ETH'', p_side = sd, p_size = sz, p_entryPrice = entry,
       p_markPrice = mark, p_unrealizedPnl = 0, p_realizedPnl = 0, p_timestamp = 1000,
       p_fees = 0, p_rebates = 0 \<rparr>"

definition openThenClose :: "(Clock \<times> Op) list" where
  "openThenClose =
     [(exampleClock, ProcessOrderFill (ethOrder ''1'' BUY 1 2000) 2000 1),
      (exampleClock, ProcessOrderFill (ethOrder ''2'' SELL 1 2100) 2100 1)]"

text \<open>
  Scenario D: a fresh Risk Manager (concentration limit 0.3, total value 10000) after a BUY
  fill of 1.75 ETH at 2000, a position of notional 3500.
\<close>

definition concentratedEth :: RiskManager where
  "concentratedEth =
     fst (processOrderFill exampleClock (newRiskManager exampleConfig)
            (ethOrder ''1'' BUY (7 / 4) 2000) 2000 (7 / 4))"

definition emergencyAlert :: RiskAlert where
  "emergencyAlert =
     \<lparr> ra_timestamp = 1000, ra_level = EMERGENCY, ra_type = ''DRAWDOWN_LIMIT'',
       ra_symbol = None, ra_value = 6, ra_limit = 5, ra_action = ''EMERGENCY_STOP'' \<rparr>"

definition busyTrace :: "(Clock \<times> Op) list" where
  "busyTrace =
     [(exampleClock, ProcessOrderFill (ethOrder ''1'' BUY 1 2000) 2000 1),
      (exampleClock, PerformRiskCheck),
      (exampleClock, UpdatePosition (ethPosition BUY 1 2000 2000))]"

text \<open>Scenario E: best bid 1999.5, spread 1, total aggressiveness 0.3 + 0.2 * 0.5 = 0.4.\<close>

definition quotingConfig :: OneSidedQuotingConfig where
  "quotingConfig =
     \<lparr> qc_symbols = [''ETH''], qc_maxPositionSize = 100, qc_baseOrderSize = 10,
       qc_confidenceThreshold = 1 / 2, qc_aggressivenessFactor = 3 / 10,
       qc_quoteUpdateFrequency = 1000, qc_maxSpreadPercent = 1 \<rparr>"

definition ethSignal :: "Direction \<Rightarrow> decimal \<Rightarrow> Signal" where
  "ethSignal direction confidence =
     \<lparr> sg_symbol = ''ETH'', sg_direction = direction, sg_confidence = confidence,
       sg_strength = 1 / 2, sg_reason = ''momentum'' \<rparr>"

definition ethMarket :: MarketData where
  "ethMarket =
     \<lparr> md_symbol = ''ETH'', md_bid = 3999 / 2, md_ask = 4001 / 2, md_spread = 1,
       md_midPrice = 2000 \<rparr>"

definition ethBook :: OrderBook where
  "ethBook =
     \<lparr> ob_symbol = ''ETH'',
       ob_bids = [\<lparr> lv_price = 3999 / 2, lv_size = 5 \<rparr>],
       ob_asks = [\<lparr> lv_price = 4001 / 2, lv_size = 5 \<rparr>] \<rparr>"

definition clockAt :: "int \<Rightarrow> Clock" where
  "clockAt t = \<lparr> ck_now = t, ck_startOfDay = 0, ck_oneDayAgo = t - 86400000 \<rparr>"

text \<open>
  A strategy from its constructor, and a day of it: it starts without positions, an order
  book and a LONG signal arrive, a market-data tick starts a quote update, which goes on; the
  quote timer fires; the engine reports a fill; the signal turns NEUTRAL and the timer fires
  again.
\<close>

definition freshStrategy :: Strategy where
  "freshStrategy = newStrategy quotingConfig (newRiskManager exampleConfig)"

definition tradingDay :: "StrategyEvent list" where
  "tradingDay =
     [PositionsLoaded (clockAt 0) (Some []),
      OrderBookArrives ethBook,
      SignalEmitted ''ETH'' (ethSignal LONG (4 / 5)),
      MarketDataArrives (clockAt 1000) ethMarket,
      Resumes 1 (clockAt 1001) Turn,
      QuoteTimerFires ''ETH'',
      Resumes 2 (clockAt 2001) Turn,
      RiskManagerCalled (clockAt 2500) (ProcessOrderFill (ethOrder ''1'' BUY 1 2000) 2000 1),
      SignalEmitted ''ETH'' (ethSignal NEUTRAL (4 / 5)),
      QuoteTimerFires ''ETH'']"



section \<open>What the Risk Manager's methods leave unchanged\<close>

declare multipliedBy_def [simp]

lemma update_not_Nil [simp]: "AList.update k v al \<noteq> []"
  by (cases al) auto

lemma calculatePerformanceMetrics_state [simp]:
  "fst (calculatePerformanceMetrics rm) = rm"
  by (simp add: calculatePerformanceMetrics_def)

lemma updateNetPnl_fields [simp]:
  "positions (updateNetPnl rm) = positions rm"
  "limits (updateNetPnl rm) = limits rm"
  "emergencyStop (updateNetPnl rm) = emergencyStop rm"
  "emitted (updateNetPnl rm) = emitted rm"
  "pendingOrders (updateNetPnl rm) = pendingOrders rm"
  "dailyTrades (updateNetPnl rm) = dailyTrades rm"
  "riskMetrics (updateNetPnl rm) = riskMetrics rm"
  "pf_totalValue (portfolio (updateNetPnl rm)) = pf_totalValue (portfolio rm)"
  by (simp_all add: updateNetPnl_def)

lemma addRebateEarnings_fields [simp]:
  "positions (addRebateEarnings rm a) = positions rm"
  "limits (addRebateEarnings rm a) = limits rm"
  "emergencyStop (addRebateEarnings rm a) = emergencyStop rm"
  "emitted (addRebateEarnings rm a) = emitted rm"
  "pendingOrders (addRebateEarnings rm a) = pendingOrders rm"
  "dailyTrades (addRebateEarnings rm a) = dailyTrades rm"
  "riskMetrics (addRebateEarnings rm a) = riskMetrics rm"
  "pf_totalValue (portfolio (addRebateEarnings rm a)) = pf_totalValue (portfolio rm)"
  by (simp_all add: addRebateEarnings_def)

lemma updateRiskMetrics_fields [simp]:
  "positions (fst (updateRiskMetrics ck rm)) = positions rm"
  "portfolio (fst (updateRiskMetrics ck rm)) = portfolio rm"
  "limits (fst (updateRiskMetrics ck rm)) = limits rm"
  "emergencyStop (fst (updateRiskMetrics ck rm)) = emergencyStop rm"
  "emitted (fst (updateRiskMetrics ck rm)) = emitted rm"
  "dailyTrades (fst (updateRiskMetrics ck rm)) = dailyTrades rm"
  by (simp_all add: updateRiskMetrics_def Let_def split: list.splits)


lemma removePendingOrder_fields [simp]:
  "positions (fst (removePendingOrder ck rm oid)) = positions rm"
  "portfolio (fst (removePendingOrder ck rm oid)) = portfolio rm"
  "limits (fst (removePendingOrder ck rm oid)) = limits rm"
  "emergencyStop (fst (removePendingOrder ck rm oid)) = emergencyStop rm"
  "emitted (fst (removePendingOrder ck rm oid)) = emitted rm"
  "dailyTrades (fst (removePendingOrder ck rm oid)) = dailyTrades rm"
  by (simp_all add: removePendingOrder_def split: option.splits)


lemma addPendingOrder_fields [simp]:
  "positions (fst (addPendingOrder ck rm order)) = positions rm"
  "portfolio (fst (addPendingOrder ck rm order)) = portfolio rm"
  "limits (fst (addPendingOrder ck rm order)) = limits rm"
  "emergencyStop (fst (addPendingOrder ck rm order)) = emergencyStop rm"
  "emitted (fst (addPendingOrder ck rm order)) = emitted rm"
  "dailyTrades (fst (addPendingOrder ck rm order)) = dailyTrades rm"
  by (simp_all add: addPendingOrder_def)


lemma setPositionTimeout_fields [simp]:
  "positions (setPositionTimeout rm s) = positions rm"
  "portfolio (setPositionTimeout rm s) = portfolio rm"
  "limits (setPositionTimeout rm s) = limits rm"
  "emergencyStop (setPositionTimeout rm s) = emergencyStop rm"
  "emitted (setPositionTimeout rm s) = emitted rm"
  "riskMetrics (setPositionTimeout rm s) = riskMetrics rm"
  by (simp_all add: setPositionTimeout_def)

lemma clearPositionTimeout_fields [simp]:
  "positions (clearPositionTimeout rm s) = positions rm"
  "portfolio (clearPositionTimeout rm s) = portfolio rm"
  "limits (clearPositionTimeout rm s) = limits rm"
  "emergencyStop (clearPositionTimeout rm s) = emergencyStop rm"
  "emitted (clearPositionTimeout rm s) = emitted rm"
  "riskMetrics (clearPositionTimeout rm s) = riskMetrics rm"
  by (simp_all add: clearPositionTimeout_def)

text \<open>
  \<^verbatim>\<open>updatePosition\<close> never returns: the ledger is not empty once the position is stored.
\<close>

lemma updatePosition_throws:
  "updatePosition ck rm position =
     (setPositionTimeout
        (rm\<lparr>positions := AList.update (p_symbol position) position (positions rm)\<rparr>)
        (p_symbol position),
      Throws TypeError)"
  by (simp add: updatePosition_def Let_def updatePortfolio_def split: list.splits)

lemma performRiskCheck_state:
  "performRiskCheck ck rm = fst (updateRiskMetrics ck rm)"
  by (simp add: performRiskCheck_def checkRiskLimits_def split: prod.splits Outcome.splits)

lemma processOrderFill_existing:
  assumes "map_of (positions rm) (o_symbol order) = Some existingPosition"
  shows "processOrderFill ck rm order fillPrice fillSize = (rm, Throws TypeError)"
  using assms
  by (simp add: processOrderFill_def updatePositionFromFill_def calculateRealizedPnl_def Let_def)

lemma processOrderFill_new:
  assumes "map_of (positions rm) (o_symbol order) = None"
  shows "positions (fst (processOrderFill ck rm order fillPrice fillSize)) =
           AList.update (o_symbol order)
             \<lparr> p_symbol = o_symbol order, p_side = o_side order, p_size = fillSize,
               p_entryPrice = fillPrice, p_markPrice = fillPrice,
               p_unrealizedPnl = 0, p_realizedPnl = 0, p_timestamp = ck_now ck,
               p_fees = o_fees order, p_rebates = o_rebates order \<rparr>
             (positions rm)"
  using assms
  by (simp add: processOrderFill_def updatePositionFromFill_def Let_def)

lemma processOrderFill_fields [simp]:
  "emergencyStop (fst (processOrderFill ck rm order fillPrice fillSize)) = emergencyStop rm"
  "limits (fst (processOrderFill ck rm order fillPrice fillSize)) = limits rm"
  "emitted (fst (processOrderFill ck rm order fillPrice fillSize)) = emitted rm"
  "pf_totalValue (portfolio (fst (processOrderFill ck rm order fillPrice fillSize)))
     = pf_totalValue (portfolio rm)"
  by (cases "map_of (positions rm) (o_symbol order)";
      simp add: processOrderFill_def updatePositionFromFill_def calculateRealizedPnl_def Let_def)+



lemma handlePositionTimeout_fields [simp]:
  "positions (handlePositionTimeout ck rm s) = positions rm"
  "portfolio (handlePositionTimeout ck rm s) = portfolio rm"
  "limits (handlePositionTimeout ck rm s) = limits rm"
  "riskMetrics (handlePositionTimeout ck rm s) = riskMetrics rm"
  by (simp_all add: handlePositionTimeout_def emitRiskAlert_def triggerEmergencyStop_def Let_def
      split: option.splits)

lemma forceClosePosition_fields [simp]:
  "portfolio (forceClosePosition rm s) = portfolio rm"
  "limits (forceClosePosition rm s) = limits rm"
  "riskMetrics (forceClosePosition rm s) = riskMetrics rm"
  "emergencyStop (forceClosePosition rm s) = emergencyStop rm"
  by (simp_all add: forceClosePosition_def split: option.splits)

text \<open>The definitions a concrete run unfolds.\<close>

lemmas example_defs =
  exampleConfig_def exampleClock_def ethOrder_def longOneEth_def newRiskManager_def
  createRiskLimits_def initializePortfolio_def initializeRiskMetrics_def
  processOrderFill_def updatePositionFromFill_def addRebateEarnings_def updateNetPnl_def
  removePendingOrder_def getPosition_def

lemma longOneEth_position:
  "getPosition longOneEth ''ETH'' = Some (ethPosition BUY 1 2000 2000)"
  by (simp add: example_defs ethPosition_def)

lemma longOneEth_positions:
  "map_of (positions longOneEth) ''ETH'' = Some (ethPosition BUY 1 2000 2000)"
  using longOneEth_position by (simp add: getPosition_def)


section \<open>Fills on an existing position\<close>

text \<open>
  Claim C1 on the code. After a BUY fill of 1 ETH at 2000 on a fresh Risk Manager the
  ledger holds a long position of 1 ETH at entry price 2000, as the claim says. Each of the
  three fills the claim describes for an existing position, a same-side BUY of 1 at 2100,
  a reversing SELL of 2 at 2100 and a reducing SELL of 0.5 at 2100, ends in a
  \<^verbatim>\<open>TypeError\<close> and leaves the Risk Manager as it was: the position is not averaged, not
  reversed and not reduced, and no P&L is realized.
\<close>

theorem fill_on_existing_position_throws:
  "getPosition longOneEth ''ETH'' = Some (ethPosition BUY 1 2000 2000)
   \<and> processOrderFill exampleClock longOneEth (ethOrder ''2'' BUY 1 2100) 2100 1
       = (longOneEth, Throws TypeError)
   \<and> processOrderFill exampleClock longOneEth (ethOrder ''3'' SELL 2 2100) 2100 2
       = (longOneEth, Throws TypeError)
   \<and> processOrderFill exampleClock longOneEth (ethOrder ''4'' SELL (1 / 2) 2100) 2100 (1 / 2)
       = (longOneEth, Throws TypeError)"
proof -
  have "processOrderFill exampleClock longOneEth (ethOrder oid sd amount 2100) 2100 sz
          = (longOneEth, Throws TypeError)" for oid sd amount sz
    by (rule processOrderFill_existing [where existingPosition = "ethPosition BUY 1 2000 2000"])
       (simp add: longOneEth_positions ethOrder_def)
  then show ?thesis by (simp add: longOneEth_position)
qed


section \<open>The trading gate\<close>

text \<open>
  For a symbol without a position \<^verbatim>\<open>canTrade\<close> returns false exactly when the latch is
  set, the daily loss or the drawdown has reached its limit, or the ledger is full. For a
  symbol with a position it returns false when one of the first three holds and throws
  otherwise. Scenario B is an instance of the second test.
\<close>

lemma canTrade_without_position:
  assumes "getPosition rm symbol = None"
  shows "canTrade rm symbol =
           Inr (\<not> (emergencyStop rm
                   \<or> lim_maxDailyLoss (limits rm) \<le> \<bar>rk_dailyLoss (riskMetrics rm)\<bar>
                   \<or> lim_maxDrawdownPercent (limits rm) \<le> rk_currentDrawdown (riskMetrics rm)
                   \<or> lim_maxOpenPositions (limits rm) \<le> length (positions rm)))"
  using assms by (simp add: canTrade_def getPosition_def)

lemma canTrade_with_position:
  assumes "getPosition rm symbol = Some position"
  shows "canTrade rm symbol =
           (if emergencyStop rm
               \<or> lim_maxDailyLoss (limits rm) \<le> \<bar>rk_dailyLoss (riskMetrics rm)\<bar>
               \<or> lim_maxDrawdownPercent (limits rm) \<le> rk_currentDrawdown (riskMetrics rm)
            then Inr False else Inl TypeError)"
  using assms by (simp add: canTrade_def getPosition_def)

lemma canTrade_daily_loss_reached:
  "lim_maxDailyLoss (limits rm) = 500 \<Longrightarrow> rk_dailyLoss (riskMetrics rm) = 500 \<Longrightarrow>
   canTrade rm ''ETH'' = Inr False"
  by (simp add: canTrade_def)

text \<open>
  Claim C2 on the code, Scenario D. With a concentration limit of 0.3, a portfolio total
  value of 10000 and an ETH position of notional 3500 (a BUY fill of 1.75 ETH at 2000 on a
  fresh Risk Manager), \<^verbatim>\<open>canTrade('ETH')\<close> does not return false: it ends in a
  \<^verbatim>\<open>TypeError\<close>.
\<close>

theorem canTrade_concentrated_position_throws:
  "lim_concentrationLimit (limits concentratedEth) = 3 / 10
   \<and> pf_totalValue (portfolio concentratedEth) = 10000
   \<and> (\<exists>position. getPosition concentratedEth ''ETH'' = Some position
          \<and> p_size position * p_markPrice position = 3500)
   \<and> canTrade concentratedEth ''ETH'' = Inl TypeError"
  by (simp add: canTrade_def concentratedEth_def example_defs)


section \<open>The ledger under fills\<close>

lemma set_update_subset: "set (AList.update k v al) \<subseteq> insert (k, v) (set al)"
  by (induction al) auto

lemma sizesPositive_lookup:
  "sizesPositive rm \<Longrightarrow> map_of (positions rm) s = Some p \<Longrightarrow> 0 < p_size p"
  by (auto simp: sizesPositive_def list_all_iff dest: map_of_SomeD)

lemma processOrderFill_sizesPositive:
  assumes "sizesPositive rm" and "0 < fillSize"
  shows "sizesPositive (fst (processOrderFill ck rm order fillPrice fillSize))"
proof (cases "map_of (positions rm) (o_symbol order)")
  case None
  show ?thesis
    using assms set_update_subset
    by (fastforce simp add: sizesPositive_def list_all_iff processOrderFill_new [OF None])
next
  case (Some existingPosition)
  then show ?thesis
    using assms by (simp add: processOrderFill_existing)
qed

lemma run_sizesPositive:
  "sizesPositive rm \<Longrightarrow> list_all positiveFill ops \<Longrightarrow> sizesPositive (run rm ops)"
proof (induction ops arbitrary: rm)
  case Nil
  then show ?case by (simp add: run_def)
next
  case (Cons a ops)
  obtain ck op where a: "a = (ck, op)" by (cases a)
  from Cons.prems(2) a obtain order fp fs where op: "op = ProcessOrderFill order fp fs"
    and pos: "0 < fs"
    by (cases op) auto
  have "sizesPositive (step rm a)"
    using Cons.prems(1) pos by (simp add: a op processOrderFill_sizesPositive)
  with Cons show ?case by (simp add: run_def)
qed

lemma newRiskManager_sizesPositive: "sizesPositive (newRiskManager cfg)"
  by (simp add: sizesPositive_def newRiskManager_def)

text \<open>
  Claim C3. Starting from a fresh Risk Manager, after any finite sequence of
  \<^verbatim>\<open>processOrderFill\<close> calls with positive prices and sizes, whether they return or
  throw, and after every prefix of it, each position \<^verbatim>\<open>getPosition\<close> returns has a
  size that is not negative and not zero: the ledger never holds a position of negative
  size, and never one of size zero. (A fill opens a position with the fill's size; a fill
  for a symbol that has a position throws before it changes anything, so a size in the
  ledger never changes.)
\<close>

theorem fills_keep_sizes_positive:
  assumes "list_all positiveFill ops"
  shows "\<forall>n sym p. getPosition (run (newRiskManager cfg) (take n ops)) sym = Some p
            \<longrightarrow> 0 \<le> p_size p \<and> p_size p \<noteq> 0"
proof (intro allI impI)
  fix n sym p
  assume get: "getPosition (run (newRiskManager cfg) (take n ops)) sym = Some p"
  have "list_all positiveFill (take n ops)"
    using assms by (auto simp: list_all_iff dest: in_set_takeD)
  then have "sizesPositive (run (newRiskManager cfg) (take n ops))"
    by (rule run_sizesPositive [OF newRiskManager_sizesPositive])
  with get have "0 < p_size p"
    by (auto simp: getPosition_def dest: sizesPositive_lookup)
  then show "0 \<le> p_size p \<and> p_size p \<noteq> 0" by simp
qed

theorem fills_keep_sizes_positive_witness:
  "list_all positiveFill openThenClose
   \<and> (\<exists>p. getPosition (run (newRiskManager exampleConfig) openThenClose) ''ETH'' = Some p
          \<and> 0 \<le> p_size p \<and> p_size p \<noteq> 0)"
proof -
  have h: "list_all positiveFill openThenClose"
    by (simp add: openThenClose_def)
  have two: "run (newRiskManager exampleConfig) openThenClose
      = fst (processOrderFill exampleClock longOneEth (ethOrder ''2'' SELL 1 2100) 2100 1)"
    by (simp add: openThenClose_def run_def longOneEth_def)
  have "processOrderFill exampleClock longOneEth (ethOrder ''2'' SELL 1 2100) 2100 1
      = (longOneEth, Throws TypeError)"
    by (rule processOrderFill_existing [where existingPosition = "ethPosition BUY 1 2000 2000"])
       (simp add: longOneEth_positions ethOrder_def)
  with two have still: "getPosition (run (newRiskManager exampleConfig) openThenClose) ''ETH''
      = Some (ethPosition BUY 1 2000 2000)"
    by (simp add: longOneEth_position)
  have "take 2 openThenClose = openThenClose" by (simp add: openThenClose_def)
  with fills_keep_sizes_positive [OF h, of exampleConfig, THEN spec, of 2] still
  have "\<exists>p. getPosition (run (newRiskManager exampleConfig) openThenClose) ''ETH'' = Some p
          \<and> 0 \<le> p_size p \<and> p_size p \<noteq> 0"
    by auto
  with h show ?thesis by simp
qed


section \<open>Scenario A: the reversal\<close>

text \<open>
  Claim C4 on the code. After the fill that opens LONG 1 ETH at 2000 on a fresh Risk
  Manager, the opposing SELL fill of 1.5 ETH ends in a \<^verbatim>\<open>TypeError\<close> at every fill
  price and leaves the Risk Manager as it was: the position is still LONG 1 ETH at entry
  price 2000, not SHORT 0.5 ETH, and the realized P&L of the portfolio is still 0.
\<close>

theorem reversal_scenario_throws:
  "getPosition longOneEth ''ETH'' = Some (ethPosition BUY 1 2000 2000)
   \<and> pf_realizedPnl (portfolio longOneEth) = 0
   \<and> (\<forall>fillPrice.
         processOrderFill exampleClock longOneEth (ethOrder ''2'' SELL (3 / 2) fillPrice)
           fillPrice (3 / 2)
         = (longOneEth, Throws TypeError))"
proof -
  have "processOrderFill exampleClock longOneEth (ethOrder ''2'' SELL (3 / 2) fillPrice)
           fillPrice (3 / 2) = (longOneEth, Throws TypeError)" for fillPrice
    by (rule processOrderFill_existing [where existingPosition = "ethPosition BUY 1 2000 2000"])
       (simp add: longOneEth_positions ethOrder_def)
  moreover have "pf_realizedPnl (portfolio longOneEth) = 0"
    by (simp add: example_defs)
  ultimately show ?thesis by (simp add: longOneEth_position)
qed


section \<open>The drawdown of a risk-check cycle\<close>

text \<open>
  No entry point of the Risk Manager changes the portfolio's total value: the only
  assignment to it is in \<^verbatim>\<open>updatePortfolio\<close>, which \<^verbatim>\<open>updatePosition\<close> calls with a
  ledger that is not empty. The value stays at the initial capital, and a drawdown of zero
  stays zero.
\<close>

lemma step_totalValue:
  "pf_totalValue (portfolio (step rm x)) = pf_totalValue (portfolio rm)"
proof -
  obtain ck op where x: "x = (ck, op)" by (cases x)
  show ?thesis
    unfolding x
    by (cases op)
       (simp_all add: updatePosition_throws performRiskCheck_state updateRiskLimits_def
          triggerEmergencyStop_def resetEmergencyStop_def)
qed



lemma run_totalValue: "pf_totalValue (portfolio (run rm ops)) = pf_totalValue (portfolio rm)"
  unfolding run_def by (induction ops arbitrary: rm) (simp_all add: step_totalValue)




lemma total_value_never_changes:
  "pf_totalValue (portfolio (run (newRiskManager cfg) ops)) = 10000"
  by (simp add: run_totalValue newRiskManager_def initializePortfolio_def)



section \<open>The portfolio after a fill\<close>

text \<open>
  Claim C8 fails on the fill path. A BUY fill of 1 ETH at 2000 on a fresh Risk Manager
  puts a position of notional 2000 into the ledger, and \<^verbatim>\<open>processOrderFill\<close> does not
  call \<^verbatim>\<open>updatePortfolio\<close>: the total value stays 10000 while cash plus the
  positions' notional plus their unrealized P&L is 12000.
\<close>

theorem processOrderFill_stale_totalValue:
  "pf_totalValue (portfolio longOneEth) = 10000
   \<and> pf_cash (portfolio longOneEth) + totalPositionValue (positions longOneEth)
       + totalUnrealizedPnl (positions longOneEth) = 12000"
  by (simp add: totalPositionValue_def totalUnrealizedPnl_def example_defs)


section \<open>The emergency-stop latch\<close>

lemma emitRiskAlert_keeps_stop: "emergencyStop rm \<Longrightarrow> emergencyStop (emitRiskAlert rm a)"
  by (simp add: emitRiskAlert_def triggerEmergencyStop_def Let_def)

lemma emitRiskAlert_emergency_sets:
  "ra_level a = EMERGENCY \<Longrightarrow> emergencyStop (emitRiskAlert rm a)"
  by (simp add: emitRiskAlert_def triggerEmergencyStop_def Let_def)

lemma emitRiskAlert_when_stopped:
  "emergencyStop rm \<Longrightarrow> emitted (emitRiskAlert rm a) = emitted rm @ [RiskAlertEvent a]"
  by (simp add: emitRiskAlert_def triggerEmergencyStop_def Let_def)

lemma emitRiskAlert_first_emergency:
  "\<not> emergencyStop rm \<Longrightarrow> ra_level a = EMERGENCY \<Longrightarrow>
   emitted (emitRiskAlert rm a) = emitted rm @ [RiskAlertEvent a, EmergencyStopEvent (Some a)]"
  by (simp add: emitRiskAlert_def triggerEmergencyStop_def Let_def)

lemma step_keeps_stop:
  assumes "emergencyStop rm" and "\<not> isReset op"
  shows "emergencyStop (step rm (ck, op))"
  using assms
  by (cases op)
     (simp_all add: updatePosition_throws performRiskCheck_state
        handlePositionTimeout_def updateRiskLimits_def
        triggerEmergencyStop_def emitRiskAlert_keeps_stop
        split: option.splits)

lemma run_keeps_stop:
  "emergencyStop rm \<Longrightarrow> list_all (\<lambda>(ck, op). \<not> isReset op) ops \<Longrightarrow>
   emergencyStop (run rm ops)"
proof (induction ops arbitrary: rm)
  case Nil
  then show ?case by (simp add: run_def)
next
  case (Cons a ops)
  obtain ck op where a: "a = (ck, op)" by (cases a)
  with Cons.prems have "emergencyStop (step rm a)"
    by (simp add: step_keeps_stop)
  with Cons show ?case by (simp add: run_def)
qed

lemma canTrade_stopped: "emergencyStop rm \<Longrightarrow> canTrade rm symbol = Inr False"
  by (simp add: canTrade_def)

lemma resetEmergencyStop_clears: "\<not> emergencyStop (resetEmergencyStop rm)"
  by (simp add: resetEmergencyStop_def)

text \<open>
  Claim C10. An EMERGENCY alert passed to \<^verbatim>\<open>emitRiskAlert\<close> sets the emergency-stop
  latch in the same call; from then on \<^verbatim>\<open>canTrade\<close> returns false for every symbol
  after any sequence of Risk Manager operations that does not contain
  \<^verbatim>\<open>resetEmergencyStop\<close> (which clears the latch). An EMERGENCY alert that arrives while
  the latch is set emits its \<^verbatim>\<open>riskAlert\<close> event and no \<^verbatim>\<open>emergencyStop\<close> event; the
  first one emits both.
\<close>

theorem emergency_alert_latches_stop:
  "(\<forall>rm a. ra_level a = EMERGENCY \<longrightarrow>
       emergencyStop (emitRiskAlert rm a)
       \<and> (\<forall>ops symbol. list_all (\<lambda>(ck, op). \<not> isReset op) ops \<longrightarrow>
             canTrade (run (emitRiskAlert rm a) ops) symbol = Inr False))
   \<and> (\<forall>rm a. emergencyStop rm \<and> ra_level a = EMERGENCY \<longrightarrow>
         emitted (emitRiskAlert rm a) = emitted rm @ [RiskAlertEvent a])
   \<and> (\<forall>rm a. \<not> emergencyStop rm \<and> ra_level a = EMERGENCY \<longrightarrow>
         emitted (emitRiskAlert rm a)
           = emitted rm @ [RiskAlertEvent a, EmergencyStopEvent (Some a)])
   \<and> (\<forall>rm. \<not> emergencyStop (resetEmergencyStop rm))"
  by (auto simp add: emitRiskAlert_emergency_sets run_keeps_stop canTrade_stopped
      emitRiskAlert_when_stopped emitRiskAlert_first_emergency resetEmergencyStop_clears)

theorem emergency_alert_latches_stop_witness:
  "ra_level emergencyAlert = EMERGENCY
   \<and> emergencyStop (emitRiskAlert (newRiskManager exampleConfig) emergencyAlert)
   \<and> list_all (\<lambda>(ck, op). \<not> isReset op) busyTrace
   \<and> canTrade (run (emitRiskAlert (newRiskManager exampleConfig) emergencyAlert) busyTrace)
         ''BTC'' = Inr False
   \<and> emitted (emitRiskAlert (emitRiskAlert (newRiskManager exampleConfig) emergencyAlert)
         emergencyAlert)
       = [RiskAlertEvent emergencyAlert, EmergencyStopEvent (Some emergencyAlert),
          RiskAlertEvent emergencyAlert]
   \<and> canTrade (resetEmergencyStop
         (emitRiskAlert (newRiskManager exampleConfig) emergencyAlert)) ''BTC'' = Inr True"
proof -
  note inst = emergency_alert_latches_stop
  have lvl: "ra_level emergencyAlert = EMERGENCY"
    by (simp add: emergencyAlert_def)
  have quiet: "list_all (\<lambda>(ck, op). \<not> isReset op) busyTrace"
    by (simp add: busyTrace_def)
  from inst [THEN conjunct1, THEN spec, THEN spec, THEN mp, OF lvl,
      of "newRiskManager exampleConfig"]
  have stop: "emergencyStop (emitRiskAlert (newRiskManager exampleConfig) emergencyAlert)"
    and denied: "canTrade
       (run (emitRiskAlert (newRiskManager exampleConfig) emergencyAlert) busyTrace)
       ''BTC'' = Inr False"
    using quiet by blast+
  have fresh: "\<not> emergencyStop (newRiskManager exampleConfig)"
    and none: "emitted (newRiskManager exampleConfig) = []"
    by (simp_all add: newRiskManager_def)
  from inst [THEN conjunct2, THEN conjunct2, THEN conjunct1, THEN spec, THEN spec, THEN mp,
      OF conjI [OF fresh lvl]]
  have first: "emitted (emitRiskAlert (newRiskManager exampleConfig) emergencyAlert)
      = [RiskAlertEvent emergencyAlert, EmergencyStopEvent (Some emergencyAlert)]"
    by (simp add: none)
  from inst [THEN conjunct2, THEN conjunct1, THEN spec, THEN spec, THEN mp,
      OF conjI [OF stop lvl]]
  have second: "emitted (emitRiskAlert
        (emitRiskAlert (newRiskManager exampleConfig) emergencyAlert) emergencyAlert)
      = [RiskAlertEvent emergencyAlert, EmergencyStopEvent (Some emergencyAlert),
         RiskAlertEvent emergencyAlert]"
    by (simp add: first)
  have reset: "canTrade (resetEmergencyStop
         (emitRiskAlert (newRiskManager exampleConfig) emergencyAlert)) ''BTC'' = Inr True"
    by (simp add: canTrade_def resetEmergencyStop_def emitRiskAlert_def
        triggerEmergencyStop_def emergencyAlert_def example_defs)
  from lvl stop quiet denied second reset show ?thesis by simp
qed


section \<open>The quote price\<close>

lemma calculateQuotePrice_throws: "calculateQuotePrice cfg signal md ob side = TypeError"
  by (simp add: calculateQuotePrice_def)

lemma roundToTickSize_throws: "roundToTickSize price tickSize = TypeError"
  by (simp add: roundToTickSize_def)

text \<open>
  Claim C9 on the code, Scenario E. For a BUY with best bid 1999.5, spread 1 and total
  aggressiveness 0.3 + 0.2 * 0.5 = 0.4, \<^verbatim>\<open>calculateQuotePrice\<close> returns no price: it ends
  in a \<^verbatim>\<open>TypeError\<close>. So does \<^verbatim>\<open>MathUtils.roundToTickSize\<close> for the raw price
  1999.3 and the tick size 0.01.
\<close>

theorem quote_price_throws:
  "qc_aggressivenessFactor quotingConfig + sg_confidence (ethSignal LONG (1 / 5)) * (1 / 2) = 4 / 10
   \<and> md_ask ethMarket - md_bid ethMarket = 1
   \<and> map lv_price (ob_bids ethBook) = [3999 / 2]
   \<and> calculateQuotePrice quotingConfig (ethSignal LONG (1 / 5)) ethMarket ethBook BUY
       = TypeError
   \<and> roundToTickSize (19993 / 10) (1 / 100) = TypeError"
  by (simp add: calculateQuotePrice_def roundToTickSize_def quotingConfig_def ethSignal_def
      ethMarket_def ethBook_def)


section \<open>The strategy never gets to place an order\<close>

text \<open>
  The only decision \<^verbatim>\<open>generateTradingDecision\<close> returns is HOLD, so \<^verbatim>\<open>updateQuotes\<close>
  never reaches \<^verbatim>\<open>placeQuote\<close>. With no active order and no request made, every event
  leaves the strategy without active orders and without requests, and every suspended call
  quiet.
\<close>

lemma noActiveOrders_symbolOrders: "noActiveOrders st \<Longrightarrow> symbolOrders st symbol = []"
  by (auto simp: noActiveOrders_def symbolOrders_def list_all_iff split: option.splits
      dest: map_of_SomeD)

lemma noActiveOrders_update:
  "noActiveOrders st \<Longrightarrow>
   noActiveOrders (st\<lparr>activeOrders := AList.update symbol [] (activeOrders st)\<rparr>)"
  using set_update_subset [of symbol "[]" "activeOrders st"]
  by (auto simp: noActiveOrders_def list_all_iff)

lemma noActiveOrders_cong:
  "activeOrders st' = activeOrders st \<Longrightarrow> noActiveOrders st' = noActiveOrders st"
  by (simp add: noActiveOrders_def)

lemma generateTradingDecision_holds:
  "generateTradingDecision st signal md ob = Inr decision \<Longrightarrow> td_action decision = Hold"
  by (auto simp: generateTradingDecision_def split: if_splits)

lemma decide_finishes: "decide st symbol signal md ob = (st, Finished)"
  by (auto simp: decide_def dest: generateTradingDecision_holds split: sum.splits)

lemma cancelSymbolOrders_idle:
  "noActiveOrders st \<Longrightarrow>
   cancelSymbolOrders st symbol after =
     (st\<lparr>activeOrders := AList.update symbol [] (activeOrders st)\<rparr>, CancelsDone symbol after)"
  by (simp add: cancelSymbolOrders_def noActiveOrders_symbolOrders)

lemma updateQuotes_begin_idle:
  assumes "noActiveOrders st"
  shows "noActiveOrders (fst (updateQuotes_begin st symbol))
       \<and> requests (fst (updateQuotes_begin st symbol)) = requests st
       \<and> quiet (snd (updateQuotes_begin st symbol))"
  using assms
  by (auto simp: updateQuotes_begin_def cancelSymbolOrders_idle noActiveOrders_update
      split: option.splits sum.splits bool.splits)

lemma resume_quiet:
  assumes "quiet task"
  shows "fst (resume ck st task wakeup) = st \<and> quiet (snd (resume ck st task wakeup))"
proof (cases task)
  case (CancelsDone symbol after)
  then show ?thesis
    by (cases after; cases wakeup) (simp_all add: decide_finishes)
qed (use assms in auto)

lemma loadPositions_fields [simp]:
  "activeOrders (loadPositions ck st ps) = activeOrders st"
  "requests (loadPositions ck st ps) = requests st"
  by (induction ps arbitrary: st; simp add: Let_def split: prod.splits Outcome.splits)+

lemma list_all_update: "list_all P xs \<Longrightarrow> P y \<Longrightarrow> list_all P (xs[n := y])"
  by (auto simp: list_all_iff dest!: subsetD [OF set_update_subset_insert])

lemma handle_idle:
  assumes "noActiveOrders (fst sys)" and "requests (fst sys) = []" and "list_all quiet (snd sys)"
  shows "noActiveOrders (fst (handle sys ev)) \<and> requests (fst (handle sys ev)) = []
       \<and> list_all quiet (snd (handle sys ev))"
proof (cases ev)
  case (MarketDataArrives ck md)
  have idle: "noActiveOrders ((fst sys)\<lparr>marketData := m\<rparr>)" for m
    using assms(1) by (simp add: noActiveOrders_def)
  from updateQuotes_begin_idle [OF idle] idle assms show ?thesis
    by (simp add: MarketDataArrives started_def processMarketData_def Let_def)
next
  case (OrderBookArrives ob)
  with assms show ?thesis by (simp add: processOrderBook_def noActiveOrders_def)
next
  case (SignalEmitted symbol signal)
  have idle: "noActiveOrders ((fst sys)\<lparr>lastSignals := m\<rparr>)" for m
    using assms(1) by (simp add: noActiveOrders_def)
  from updateQuotes_begin_idle [OF idle] idle assms show ?thesis
    by (simp add: SignalEmitted started_def processSignal_def)
next
  case (HistoryCleared symbol)
  with assms show ?thesis by (simp add: noActiveOrders_def)
next
  case (QuoteTimerFires symbol)
  with updateQuotes_begin_idle [OF assms(1)] assms show ?thesis
    by (simp add: started_def)
next
  case (PositionsLoaded ck answer)
  with assms show ?thesis by (cases answer) (simp_all add: noActiveOrders_def)
next
  case StopCalled
  with assms show ?thesis by (simp add: noActiveOrders_def)
next
  case (CancelSymbolOrdersCalled symbol)
  with assms show ?thesis
    by (simp add: started_def cancelSymbolOrders_idle noActiveOrders_update)
next
  case (Resumes n ck wakeup)
  show ?thesis
  proof (cases "n < length (snd sys)")
    case True
    then have "quiet (snd sys ! n)" using assms(3) by (simp add: list_all_length)
    from resume_quiet [OF this] assms True show ?thesis
      by (simp add: Resumes list_all_update)
  next
    case False
    with assms show ?thesis by (simp add: Resumes)
  qed
next
  case (RiskManagerCalled ck op)
  with assms show ?thesis by (simp add: noActiveOrders_def)
qed

lemma runEvents_idle:
  assumes "noActiveOrders (fst sys)" and "requests (fst sys) = []" and "list_all quiet (snd sys)"
  shows "noActiveOrders (fst (runEvents sys events)) \<and> requests (fst (runEvents sys events)) = []
       \<and> list_all quiet (snd (runEvents sys events))"
  using assms unfolding runEvents_def
proof (induction events arbitrary: sys)
  case Nil
  then show ?case by simp
next
  case (Cons ev events)
  from handle_idle [OF Cons.prems, of ev] Cons.IH [of "handle sys ev"] show ?case by simp
qed





text \<open>
  Claim C5. From a strategy without active orders that has asked nothing of the exchange
  (as its constructor leaves it), after any sequence of events, in any interleaving of the
  suspended quote updates, and after every prefix of it: every symbol has at most one
  active order, and the strategy has made no request to the exchange. In particular it has
  placed no order, after a failed cancellation or otherwise.
\<close>

theorem never_more_than_one_active_order:
  assumes "noActiveOrders st" and "requests st = []"
  shows "\<forall>n symbol.
           length (symbolOrders (fst (runEvents (st, []) (take n events))) symbol) \<le> 1
           \<and> requests (fst (runEvents (st, []) (take n events))) = []"
proof (intro allI)
  fix n symbol
  from runEvents_idle [of "(st, [])" "take n events"] assms
  have "noActiveOrders (fst (runEvents (st, []) (take n events)))"
    and "requests (fst (runEvents (st, []) (take n events))) = []"
    by simp_all
  then show "length (symbolOrders (fst (runEvents (st, []) (take n events))) symbol) \<le> 1
           \<and> requests (fst (runEvents (st, []) (take n events))) = []"
    by (simp add: noActiveOrders_symbolOrders)
qed

theorem never_more_than_one_active_order_witness:
  "noActiveOrders freshStrategy \<and> requests freshStrategy = []
   \<and> length (symbolOrders (fst (runEvents (freshStrategy, []) tradingDay)) ''ETH'') \<le> 1
   \<and> requests (fst (runEvents (freshStrategy, []) tradingDay)) = []"
proof -
  have a: "noActiveOrders freshStrategy" and b: "requests freshStrategy = []"
    by (simp_all add: freshStrategy_def newStrategy_def noActiveOrders_def)
  have "take 10 tradingDay = tradingDay" by (simp add: tradingDay_def)
  with never_more_than_one_active_order [OF a b, of tradingDay, THEN spec, of 10, THEN spec,
      of "''ETH''"] a b
  show ?thesis by simp
qed

end
